theory Spec2Isabelle
  imports Complex_Main "HOL-Library.Word"
begin

section \<open>conda/gateways/connection/download.py\<close>

text \<open>
  A shallow embedding of \<^verbatim>\<open>download(url, target_full_path, md5sum)\<close>. The HTTP
  client (requests), the file system, \<^verbatim>\<open>hashlib\<close> and the three progress loggers are
  outside the module; what they answer during one call is the environment of the model,
  and what the call does to them is recorded as a list of events and the content of the
  destination file.
\<close>

subsection \<open>Values and exceptions\<close>

type_synonym bytes = "8 word list"

text \<open>The attributes of a response that the error mapping reads.\<close>

record response_info =
  status_code :: int
  reason :: string
  elapsed :: int

datatype pyval = PStr string | PInt int

text \<open>
  What the libraries raise into \<^verbatim>\<open>download\<close>: the requests exceptions the module
  imports, with their \<^verbatim>\<open>response\<close> attribute (Python \<^verbatim>\<open>None\<close> is \<open>None\<close>) or their
  text, the \<^verbatim>\<open>IOError\<close> of the file system with its errno, and any other exception.
\<close>

datatype lib_exn =
    InvalidSchema string
  | ConnectionError "response_info option"
  | HTTPError "response_info option"
  | SSLError "response_info option"
  | IOError int
  | OtherException string

text \<open>
  What \<^verbatim>\<open>download\<close> raises: the exceptions it constructs, the \<^verbatim>\<open>ValueError\<close> of its
  call of \<^verbatim>\<open>int\<close>, and a library exception as it was raised (\<open>FromLibrary\<close>).
  \<^verbatim>\<open>CondaError\<close> carries its message template and its keyword arguments, in the order
  the source passes them; \<^verbatim>\<open>CondaHTTPError\<close> ends with \<^verbatim>\<open>e.response\<close> and
  \<^verbatim>\<open>caused_by\<close>.
\<close>

datatype pyexn =
    BasicClobberError string string
  | CondaError string "(string \<times> pyval) list"
  | MD5MismatchError string string string string
  | CondaDependencyError string
  | CondaHTTPError string string "int option" "string option" "int option"
      "response_info option" lib_exn
  | ValueError
  | FromLibrary lib_exn

subsection \<open>Configuration\<close>

datatype clobber_policy = FailOnClobber | PermitClobber

record conda_context =
  ssl_verify :: bool
  remote_connect_timeout_secs :: real
  remote_read_timeout_secs :: real
  clobber :: clobber_policy

text \<open>
  Modelled from the spec: \<^verbatim>\<open>maybe_raise\<close> (conda/exceptions.py) and the configuration
  it reads (conda/base/context.py) are not among the sources. The spec describes a
  "maybe raise" gate that lets operators downgrade the failure for a pre-existing
  destination file into a warning under configuration, and says that the default is to
  fail. \<open>None\<close> is a normal return of the gate, \<open>Some e\<close> is \<^verbatim>\<open>raise e\<close>.
\<close>

definition default_clobber_policy :: clobber_policy where
  "default_clobber_policy = FailOnClobber"

definition maybe_raise :: "pyexn \<Rightarrow> conda_context \<Rightarrow> pyexn option" where
  "maybe_raise error ctx = (if clobber ctx = FailOnClobber then Some error else None)"

subsection \<open>The environment of one call\<close>

text \<open>
  One iteration of \<^verbatim>\<open>resp.iter_content(2 ** 14)\<close>: the (decoded) chunk it yields, what
  \<^verbatim>\<open>resp.raw.tell()\<close> answers right after, and the errno of the \<^verbatim>\<open>IOError\<close> that
  \<^verbatim>\<open>fh.write(chunk)\<close> raises, if it raises.
\<close>

record stream_step =
  chunk :: bytes
  raw_tell :: int
  write_errno :: "int option"

text \<open>
  A response: \<open>info\<close> holds its status code, reason and elapsed time;
  \<open>content_length_header\<close> is \<^verbatim>\<open>headers.get('Content-Length')\<close>; \<open>iter_content\<close> are
  the iterations of the body, after which the iterator either stops
  (\<open>iter_error = None\<close>) or raises.
\<close>

record response =
  info :: response_info
  content_length_header :: "string option"
  iter_content :: "stream_step list"
  iter_error :: "lib_exn option"

text \<open>
  \<^verbatim>\<open>raise_for_status\<close> belongs to the requests library: it raises its \<^verbatim>\<open>HTTPError\<close>
  for the client and server error statuses, 400 to 599, and returns for every other
  status (the spec's "or 4xx/5xx").
\<close>

definition status_raises :: "response \<Rightarrow> bool" where
  "status_raises resp = (400 \<le> status_code (info resp) \<and> status_code (info resp) < 600)"

record env =
  get_result :: "lib_exn + response"
  open_errno :: "int option"

subsection \<open>Observable effects\<close>

datatype event =
    IgnoreInsecureRequestWarning
  | MutexAcquire
  | MutexRelease
  | Get string "real \<times> real"
  | FetchStart string int
  | FetchUpdate int
  | FetchStop
  | FileOpen string
  | FileWrite bytes
  | DigestUpdate bytes

record world =
  events :: "event list"
  target_file :: "bytes option"

definition emit :: "event \<Rightarrow> world \<Rightarrow> world" where
  "emit e w = w\<lparr>events := events w @ [e]\<rparr>"

subsection \<open>Library functions the module calls\<close>

text \<open>\<^verbatim>\<open>os.path.basename\<close> on a POSIX path: what follows the last slash.\<close>

definition basename :: "string \<Rightarrow> string" where
  "basename p = rev (takeWhile (\<lambda>c. c \<noteq> CHR ''/'') (rev p))"

text \<open>
  \<^verbatim>\<open>int(s)\<close> on a string: surrounding whitespace is dropped, then an optional sign and
  at least one decimal digit must remain; anything else raises \<^verbatim>\<open>ValueError\<close>
  (\<open>None\<close>). The underscores that Python 3.6 accepts between digits and the digits
  outside ASCII are left out.
\<close>

definition py_isspace :: "char \<Rightarrow> bool" where
  "py_isspace c = (c \<in> set [CHR '' '', CHR 0x09, CHR 0x0A, CHR 0x0B, CHR 0x0C, CHR 0x0D])"

definition py_strip :: "string \<Rightarrow> string" where
  "py_strip s = rev (dropWhile py_isspace (rev (dropWhile py_isspace s)))"

definition digit_of :: "char \<Rightarrow> nat option" where
  "digit_of c =
     (let n = (of_char c :: nat) in if 48 \<le> n \<and> n \<le> 57 then Some (n - 48) else None)"

fun digits_from :: "nat \<Rightarrow> string \<Rightarrow> nat option" where
  "digits_from acc [] = Some acc"
| "digits_from acc (c # cs) =
     (case digit_of c of None \<Rightarrow> None | Some d \<Rightarrow> digits_from (10 * acc + d) cs)"

definition digits :: "string \<Rightarrow> nat option" where
  "digits s = (if s = [] then None else digits_from 0 s)"

definition py_int :: "string \<Rightarrow> int option" where
  "py_int s =
     (case py_strip s of
        [] \<Rightarrow> None
      | c # cs \<Rightarrow>
          if c = CHR ''-'' then map_option (\<lambda>n. - int n) (digits cs)
          else if c = CHR ''+'' then map_option int (digits cs)
          else map_option int (digits (c # cs)))"

text \<open>\<^verbatim>\<open>needle in haystack\<close> on strings.\<close>

fun py_in :: "string \<Rightarrow> string \<Rightarrow> bool" where
  "py_in needle [] = (needle = [])"
| "py_in needle (c # cs) = (take (length needle) (c # cs) = needle \<or> py_in needle cs)"

subsection \<open>Messages\<close>

text \<open>\<^verbatim>\<open>dals\<close> dedents a literal and drops its leading newline: the lines below, each ended by a newline.\<close>

definition dals :: "string list \<Rightarrow> string" where
  "dals ls = concat (map (\<lambda>l. l @ [CHR 0x0A]) ls)"

definition write_failed_message :: string where
  "write_failed_message = ''Failed to write to %(target_path)s'' @ [CHR 0x0A] @ ''  errno: %(errno)d''"

definition length_mismatch_message :: string where
  "length_mismatch_message = dals
     [''Downloaded bytes did not match Content-Length'',
      ''  url: %(url)s'',
      ''  target_path: %(target_path)s'',
      ''  Content-Length: %(content_length)d'',
      ''  downloaded bytes: %(downloaded_bytes)d'']"

definition socks_message :: string where
  "socks_message = dals
     [''Requests has identified that your current working environment is configured'',
      ''to use a SOCKS proxy, but pysocks is not installed.  To proceed, remove your'',
      ''proxy configuration, run `conda install pysocks`, and then you can re-enable'',
      ''your proxy configuration.'']"

definition help_message :: string where
  "help_message = dals
     [''An HTTP error occurred when trying to retrieve this URL.'',
      ''HTTP errors are often intermittent, and a simple retry will get you on your way.'']"

subsection \<open>The streaming loop (lines 73 to 88)\<close>

text \<open>
  The state of the loop is the world, the bytes fed to \<^verbatim>\<open>digest_builder\<close> so far and
  \<^verbatim>\<open>streamed_bytes\<close>. A failed write raises the \<^verbatim>\<open>CondaError\<close> of line 83 and leaves
  the file as it was before that write.
\<close>

definition fh_write :: "bytes \<Rightarrow> world \<Rightarrow> world" where
  "fh_write c w =
     emit (FileWrite c)
       (w\<lparr>target_file := Some ((case target_file w of None \<Rightarrow> [] | Some b \<Rightarrow> b) @ c)\<rparr>)"

fun stream_loop ::
  "string \<Rightarrow> int \<Rightarrow> stream_step list \<Rightarrow> world \<times> bytes \<times> int \<Rightarrow> world \<times> (pyexn + bytes \<times> int)"
where
  "stream_loop target_full_path content_length [] (w, digest_builder, streamed_bytes) =
     (w, Inr (digest_builder, streamed_bytes))"
| "stream_loop target_full_path content_length (s # ss) (w, digest_builder, streamed_bytes0) =
     (let streamed_bytes = raw_tell s in
      case write_errno s of
        Some errno \<Rightarrow>
          (w, Inl (CondaError write_failed_message
                     [(''target_path'', PStr target_full_path), (''errno'', PInt errno)]))
      | None \<Rightarrow>
          let w1 = fh_write (chunk s) w;
              w2 = emit (DigestUpdate (chunk s)) w1;
              w3 = (if content_length \<noteq> 0 \<and> 0 \<le> streamed_bytes \<and> streamed_bytes \<le> content_length
                    then emit (FetchUpdate streamed_bytes) w2 else w2)
          in stream_loop target_full_path content_length ss
               (w3, digest_builder @ chunk s, streamed_bytes))"

subsection \<open>The body of the session block (lines 60 to 101)\<close>

text \<open>\<^verbatim>\<open>resp.raise_for_status()\<close>: the \<^verbatim>\<open>HTTPError\<close> it raises carries the response.\<close>

definition raise_for_status :: "response \<Rightarrow> lib_exn option" where
  "raise_for_status resp = (if status_raises resp then Some (HTTPError (Some (info resp))) else None)"

text \<open>\<^verbatim>\<open>int(resp.headers.get('Content-Length', 0))\<close>; \<open>None\<close> is the \<^verbatim>\<open>ValueError\<close> of \<^verbatim>\<open>int\<close>.\<close>

definition declared_content_length :: "response \<Rightarrow> int option" where
  "declared_content_length resp =
     (case content_length_header resp of None \<Rightarrow> Some 0 | Some s \<Rightarrow> py_int s)"

text \<open>
  Lines 70 to 101: open the file for writing (which empties it), run the loop, and compare
  the byte count. The handler of lines 103 to 107 only logs and raises the same exception
  again, so it does not appear.
\<close>

definition stream_to_file ::
  "env \<Rightarrow> response \<Rightarrow> string \<Rightarrow> string \<Rightarrow> int \<Rightarrow> world \<Rightarrow> world \<times> (pyexn + bytes)"
where
  "stream_to_file e resp url target_full_path content_length w =
     (case open_errno e of
        Some errno \<Rightarrow> (w, Inl (FromLibrary (IOError errno)))
      | None \<Rightarrow>
          (case stream_loop target_full_path content_length (iter_content resp)
                  (emit (FileOpen target_full_path) (w\<lparr>target_file := Some []\<rparr>), [], 0) of
             (w1, Inl exn) \<Rightarrow> (w1, Inl exn)
           | (w1, Inr (digest_builder, streamed_bytes)) \<Rightarrow>
               (case iter_error resp of
                  Some exn \<Rightarrow> (w1, Inl (FromLibrary exn))
                | None \<Rightarrow>
                    if content_length \<noteq> 0 \<and> streamed_bytes \<noteq> content_length
                    then (w1, Inl (CondaError length_mismatch_message
                                     [(''url'', PStr url),
                                      (''target_path'', PStr target_full_path),
                                      (''content_length'', PInt content_length),
                                      (''downloaded_bytes'', PInt streamed_bytes)]))
                    else (w1, Inr digest_builder))))"

text \<open>
  The result carries the value of the variable \<^verbatim>\<open>content_length\<close> when the block is
  left (\<open>None\<close> is Python's \<^verbatim>\<open>None\<close>), since the \<^verbatim>\<open>finally\<close> clause reads it.
\<close>

definition session_body ::
  "conda_context \<Rightarrow> env \<Rightarrow> string \<Rightarrow> string \<Rightarrow> world \<Rightarrow> world \<times> int option \<times> (pyexn + bytes)"
where
  "session_body ctx e url target_full_path w =
     (let w1 = emit (Get url (remote_connect_timeout_secs ctx, remote_read_timeout_secs ctx)) w in
      case get_result e of
        Inl exn \<Rightarrow> (w1, None, Inl (FromLibrary exn))
      | Inr resp \<Rightarrow>
          (case raise_for_status resp of
             Some exn \<Rightarrow> (w1, None, Inl (FromLibrary exn))
           | None \<Rightarrow>
               (case declared_content_length resp of
                  None \<Rightarrow> (w1, None, Inl ValueError)
                | Some content_length \<Rightarrow>
                    let w2 = (if content_length \<noteq> 0
                              then emit (FetchStart (take 14 (basename target_full_path)) content_length) w1
                              else w1)
                    in case stream_to_file e resp url target_full_path content_length w2 of
                         (w3, r) \<Rightarrow> (w3, Some content_length, r))))"

subsection \<open>download\<close>

text \<open>
  The \<^verbatim>\<open>try\<close> block: the session block between \<^verbatim>\<open>__enter__\<close> and \<^verbatim>\<open>__exit__\<close> of
  \<^verbatim>\<open>SingleThreadCondaSession\<close> (which releases the mutex and lets the exception pass),
  then the comparison of the digests. \<open>hexdigest\<close> is MD5 in hexadecimal, applied to all
  the bytes \<^verbatim>\<open>digest_builder\<close> has been fed.
\<close>

definition try_block ::
  "conda_context \<Rightarrow> env \<Rightarrow> (bytes \<Rightarrow> string) \<Rightarrow> string \<Rightarrow> string \<Rightarrow> string option \<Rightarrow> world
     \<Rightarrow> world \<times> int option \<times> (pyexn + unit)"
where
  "try_block ctx e hexdigest url target_full_path md5sum w =
     (case session_body ctx e url target_full_path (emit MutexAcquire w) of
        (w1, content_length, r) \<Rightarrow>
          let w2 = emit MutexRelease w1 in
          (case r of
             Inl exn \<Rightarrow> (w2, content_length, Inl exn)
           | Inr digest_builder \<Rightarrow>
               let actual_md5sum = hexdigest digest_builder in
               (case md5sum of
                  None \<Rightarrow> (w2, content_length, Inr ())
                | Some m \<Rightarrow>
                    if m \<noteq> [] \<and> actual_md5sum \<noteq> m
                    then (w2, content_length, Inl (MD5MismatchError url target_full_path m actual_md5sum))
                    else (w2, content_length, Inr ()))))"

text \<open>
  The \<^verbatim>\<open>except\<close> clauses of lines 115 to 138, applied to an exception that leaves the
  \<^verbatim>\<open>try\<close> block. \<^verbatim>\<open>getattr(e.response, name, None)\<close> is \<^verbatim>\<open>None\<close> when the
  exception has no response.
\<close>

fun except_clauses :: "string \<Rightarrow> pyexn \<Rightarrow> pyexn" where
  "except_clauses url (FromLibrary (InvalidSchema msg)) =
     (if py_in ''SOCKS'' msg then CondaDependencyError socks_message
      else FromLibrary (InvalidSchema msg))"
| "except_clauses url (FromLibrary (ConnectionError r)) =
     CondaHTTPError help_message url (map_option status_code r) (map_option reason r)
       (map_option elapsed r) r (ConnectionError r)"
| "except_clauses url (FromLibrary (HTTPError r)) =
     CondaHTTPError help_message url (map_option status_code r) (map_option reason r)
       (map_option elapsed r) r (HTTPError r)"
| "except_clauses url (FromLibrary (SSLError r)) =
     CondaHTTPError help_message url (map_option status_code r) (map_option reason r)
       (map_option elapsed r) r (SSLError r)"
| "except_clauses url exn = exn"

record outcome =
  final :: world
  result :: "pyexn + unit"

text \<open>
  \<open>fs\<close> is the content of the file at \<^verbatim>\<open>target_full_path\<close> before the call, \<open>None\<close>
  when there is none. The events of the outcome are those of this call.
\<close>

definition download ::
  "conda_context \<Rightarrow> env \<Rightarrow> (bytes \<Rightarrow> string) \<Rightarrow> bytes option
     \<Rightarrow> string \<Rightarrow> string \<Rightarrow> string option \<Rightarrow> outcome"
where
  "download ctx e hexdigest fs url target_full_path md5sum =
     (let w0 = \<lparr>events = [], target_file = fs\<rparr> in
      case (if fs \<noteq> None then maybe_raise (BasicClobberError target_full_path url) ctx else None) of
        Some exn \<Rightarrow> \<lparr>final = w0, result = Inl exn\<rparr>
      | None \<Rightarrow>
          let w1 = (if \<not> ssl_verify ctx then emit IgnoreInsecureRequestWarning w0 else w0) in
          case try_block ctx e hexdigest url target_full_path md5sum w1 of
            (w2, content_length, r) \<Rightarrow>
              let r' = (case r of Inl exn \<Rightarrow> Inl (except_clauses url exn) | Inr u \<Rightarrow> Inr u);
                  w3 = (case content_length of
                          None \<Rightarrow> w2
                        | Some n \<Rightarrow> if n \<noteq> 0 then emit FetchStop w2 else w2)
              in \<lparr>final = w3, result = r'\<rparr>)"

subsection \<open>Reading an outcome\<close>

text \<open>The chunks written to the file and the chunks fed to the digest, in order.\<close>

fun written :: "event \<Rightarrow> bytes list" where
  "written (FileWrite c) = [c]"
| "written _ = []"

fun hashed :: "event \<Rightarrow> bytes list" where
  "hashed (DigestUpdate c) = [c]"
| "hashed _ = []"

definition file_writes :: "event list \<Rightarrow> bytes list" where
  "file_writes evs = concat (map written evs)"

definition digest_updates :: "event list \<Rightarrow> bytes list" where
  "digest_updates evs = concat (map hashed evs)"

text \<open>The counts reported to \<^verbatim>\<open>fetch.update\<close>, in order.\<close>

fun reported :: "event \<Rightarrow> int list" where
  "reported (FetchUpdate n) = [n]"
| "reported _ = []"

definition fetch_updates :: "event list \<Rightarrow> int list" where
  "fetch_updates evs = concat (map reported evs)"

fun is_get :: "event \<Rightarrow> bool" where
  "is_get (Get _ _) = True"
| "is_get _ = False"

text \<open>The transport-call counter: the GET requests issued.\<close>

definition get_calls :: "event list \<Rightarrow> nat" where
  "get_calls evs = length (filter is_get evs)"

fun is_start_or_stop :: "event \<Rightarrow> bool" where
  "is_start_or_stop (FetchStart _ _) = True"
| "is_start_or_stop FetchStop = True"
| "is_start_or_stop _ = False"

fun is_progress :: "event \<Rightarrow> bool" where
  "is_progress (FetchStart _ _) = True"
| "is_progress (FetchUpdate _) = True"
| "is_progress FetchStop = True"
| "is_progress _ = False"

fun is_mutex :: "event \<Rightarrow> bool" where
  "is_mutex MutexAcquire = True"
| "is_mutex MutexRelease = True"
| "is_mutex _ = False"

text \<open>The two validation errors, whatever they carry.\<close>

fun is_length_mismatch :: "pyexn + unit \<Rightarrow> bool" where
  "is_length_mismatch (Inl (CondaError msg kwargs)) = (msg = length_mismatch_message)"
| "is_length_mismatch _ = False"

fun is_md5_mismatch :: "pyexn + unit \<Rightarrow> bool" where
  "is_md5_mismatch (Inl (MD5MismatchError _ _ _ _)) = True"
| "is_md5_mismatch _ = False"

subsection \<open>Reading an environment\<close>

text \<open>
  The precondition check lets the call pass: there is no file at the destination, or the
  policy permits overwriting it.
\<close>

definition passes_clobber_check :: "conda_context \<Rightarrow> bytes option \<Rightarrow> bool" where
  "passes_clobber_check ctx fs = (fs = None \<or> clobber ctx = PermitClobber)"

text \<open>
  The request phase ends with a declared length: the GET returns \<open>resp\<close>, its status
  raises nothing, and the header gives \<open>n\<close> (0 when it is absent).
\<close>

definition responds :: "env \<Rightarrow> response \<Rightarrow> int \<Rightarrow> bool" where
  "responds e resp n =
     (get_result e = Inr resp \<and> \<not> status_raises resp \<and> declared_content_length resp = Some n)"

text \<open>
  The stream ends: the file was opened, every chunk was written, and the iterator stopped
  without raising.
\<close>

definition stream_ends :: "env \<Rightarrow> response \<Rightarrow> bool" where
  "stream_ends e resp =
     (open_errno e = None \<and> list_all (\<lambda>s. write_errno s = None) (iter_content resp)
      \<and> iter_error resp = None)"

text \<open>The value of \<^verbatim>\<open>streamed_bytes\<close> after the loop: the last answer of \<^verbatim>\<open>resp.raw.tell()\<close>.\<close>

definition final_tell :: "response \<Rightarrow> int" where
  "final_tell resp = last (0 # map raw_tell (iter_content resp))"

text \<open>The decoded body: all chunks, in order.\<close>

definition body :: "response \<Rightarrow> bytes" where
  "body resp = concat (map chunk (iter_content resp))"

text \<open>The events of one iteration of the loop whose write succeeds.\<close>

definition step_events :: "int \<Rightarrow> stream_step \<Rightarrow> event list" where
  "step_events content_length s =
     [FileWrite (chunk s), DigestUpdate (chunk s)] @
     (if content_length \<noteq> 0 \<and> 0 \<le> raw_tell s \<and> raw_tell s \<le> content_length
      then [FetchUpdate (raw_tell s)] else [])"

text \<open>
  A stand-in for the MD5 of \<^verbatim>\<open>hashlib\<close> in the examples: two hexadecimal digits, the sum
  of the bytes modulo 256. The theorems hold for every digest function.
\<close>

definition hex_digit :: "nat \<Rightarrow> char" where
  "hex_digit n = ''0123456789abcdef'' ! (n mod 16)"

definition sum8_hexdigest :: "bytes \<Rightarrow> string" where
  "sum8_hexdigest bs = (let n = sum_list (map unat bs) mod 256 in [hex_digit (n div 16), hex_digit n])"

subsection \<open>Closed forms used in the proofs\<close>

text \<open>
  The steps of the loop that run to their end (those before the first failing write), the
  errno of the first failing write, the result of lines 70 to 101 once the file is open,
  the result of the call after the digest comparison and the \<^verbatim>\<open>except\<close> clauses, and
  the events before and after the streaming.
\<close>

definition written_steps :: "response \<Rightarrow> stream_step list" where
  "written_steps resp = takeWhile (\<lambda>s. write_errno s = None) (iter_content resp)"

fun first_write_error :: "stream_step list \<Rightarrow> int option" where
  "first_write_error [] = None"
| "first_write_error (s # ss) =
     (case write_errno s of Some errno \<Rightarrow> Some errno | None \<Rightarrow> first_write_error ss)"

definition stream_result :: "response \<Rightarrow> string \<Rightarrow> string \<Rightarrow> int \<Rightarrow> pyexn + bytes" where
  "stream_result resp url tp cl =
     (case first_write_error (iter_content resp) of
        Some errno \<Rightarrow>
          Inl (CondaError write_failed_message [(''target_path'', PStr tp), (''errno'', PInt errno)])
      | None \<Rightarrow>
          (case iter_error resp of
             Some x \<Rightarrow> Inl (FromLibrary x)
           | None \<Rightarrow>
               if cl \<noteq> 0 \<and> final_tell resp \<noteq> cl
               then Inl (CondaError length_mismatch_message
                      [(''url'', PStr url), (''target_path'', PStr tp),
                       (''content_length'', PInt cl), (''downloaded_bytes'', PInt (final_tell resp))])
               else Inr (body resp)))"

definition verdict :: "(bytes \<Rightarrow> string) \<Rightarrow> string \<Rightarrow> string \<Rightarrow> string option \<Rightarrow> pyexn + bytes \<Rightarrow> pyexn + unit" where
  "verdict hx url tp md5 r =
     (case r of
        Inl x \<Rightarrow> Inl (except_clauses url x)
      | Inr d \<Rightarrow>
          (case md5 of
             None \<Rightarrow> Inr ()
           | Some m \<Rightarrow> if m \<noteq> [] \<and> hx d \<noteq> m then Inl (MD5MismatchError url tp m (hx d)) else Inr ()))"

definition prologue :: "conda_context \<Rightarrow> string \<Rightarrow> string \<Rightarrow> int \<Rightarrow> event list" where
  "prologue ctx url tp cl =
     (if \<not> ssl_verify ctx then [IgnoreInsecureRequestWarning] else []) @
     [MutexAcquire, Get url (remote_connect_timeout_secs ctx, remote_read_timeout_secs ctx)] @
     (if cl \<noteq> 0 then [FetchStart (take 14 (basename tp)) cl] else [])"

definition epilogue :: "int \<Rightarrow> event list" where
  "epilogue cl = MutexRelease # (if cl \<noteq> 0 then [FetchStop] else [])"

subsection \<open>Examples\<close>

definition sample_context :: conda_context where
  "sample_context =
     \<lparr>ssl_verify = True, remote_connect_timeout_secs = 9.15, remote_read_timeout_secs = 60,
      clobber = FailOnClobber\<rparr>"

definition sample_info :: response_info where
  "sample_info = \<lparr>status_code = 200, reason = ''OK'', elapsed = 120\<rparr>"

definition step :: "bytes \<Rightarrow> int \<Rightarrow> stream_step" where
  "step c n = \<lparr>chunk = c, raw_tell = n, write_errno = None\<rparr>"

definition response_of :: "string option \<Rightarrow> stream_step list \<Rightarrow> response" where
  "response_of header steps =
     \<lparr>info = sample_info, content_length_header = header,
      iter_content = steps, iter_error = None\<rparr>"

definition env_of :: "response \<Rightarrow> env" where
  "env_of resp = \<lparr>get_result = Inr resp, open_errno = None\<rparr>"

text \<open>
  Responses: three wire bytes that decode to five; five bytes declared and three sent;
  three declared and three sent; a declared length of 0; a status that
  \<^verbatim>\<open>raise_for_status\<close> rejects; a status outside 2xx that it lets pass; and a
  connection lost after the first chunk.
\<close>

definition compressed_response :: response where
  "compressed_response = response_of (Some ''3'') [step [1, 2, 3, 4, 5] 3]"

definition truncated_response :: response where
  "truncated_response = response_of (Some ''5'') [step [1, 2] 2, step [3] 3]"

definition exact_response :: response where
  "exact_response = response_of (Some ''3'') [step [1, 2] 2, step [3] 3]"

definition zero_length_response :: response where
  "zero_length_response = response_of (Some ''0'') [step [1, 2] 2, step [3] 3]"

definition not_found_response :: response where
  "not_found_response =
     \<lparr>info = \<lparr>status_code = 404, reason = ''Not Found'', elapsed = 35\<rparr>,
      content_length_header = None, iter_content = [], iter_error = None\<rparr>"

definition not_modified_response :: response where
  "not_modified_response =
     \<lparr>info = \<lparr>status_code = 304, reason = ''Not Modified'', elapsed = 35\<rparr>,
      content_length_header = None, iter_content = [], iter_error = None\<rparr>"

definition reset_response :: response where
  "reset_response =
     \<lparr>info = sample_info, content_length_header = Some ''5'',
      iter_content = [step [1, 2] 2], iter_error = Some (ConnectionError None)\<rparr>"

section \<open>Properties\<close>

subsection \<open>The loop and the paths of download\<close>

lemma first_write_error_None:
  "first_write_error ss = None \<longleftrightarrow> list_all (\<lambda>s. write_errno s = None) ss"
  by (induction ss) (auto split: option.splits)

lemma takeWhile_all_written:
  "first_write_error ss = None \<Longrightarrow> takeWhile (\<lambda>s. write_errno s = None) ss = ss"
  by (induction ss) (auto split: option.splits)

lemma stream_loop_closed:
  "target_file w = Some f \<Longrightarrow>
   stream_loop tp cl ss (w, d, sb) =
     (w\<lparr>events := events w @ concat (map (step_events cl) (takeWhile (\<lambda>s. write_errno s = None) ss)),
        target_file := Some (f @ concat (map chunk (takeWhile (\<lambda>s. write_errno s = None) ss)))\<rparr>,
      case first_write_error ss of
        Some errno \<Rightarrow>
          Inl (CondaError write_failed_message [(''target_path'', PStr tp), (''errno'', PInt errno)])
      | None \<Rightarrow> Inr (d @ concat (map chunk ss), last (sb # map raw_tell ss)))"
proof (induction ss arbitrary: w d sb f)
  case Nil
  then show ?case by simp
next
  case (Cons s ss)
  show ?case
  proof (cases "write_errno s")
    case None
    then show ?thesis
      using Cons.prems
      by (simp add: Cons.IH emit_def fh_write_def step_events_def Let_def split: option.splits)
  next
    case (Some errno)
    then show ?thesis using Cons.prems by simp
  qed
qed

lemma stream_to_file_closed:
  assumes "open_errno e = None"
  shows "stream_to_file e resp url tp cl w =
     (w\<lparr>events := events w @ FileOpen tp # concat (map (step_events cl) (written_steps resp)),
        target_file := Some (concat (map chunk (written_steps resp)))\<rparr>,
      stream_result resp url tp cl)"
proof -
  let ?w = "emit (FileOpen tp) (w\<lparr>target_file := Some []\<rparr>)"
  have tf: "target_file ?w = Some []" by (simp add: emit_def)
  show ?thesis
    unfolding stream_to_file_def assms stream_loop_closed [OF tf]
    by (simp add: emit_def written_steps_def stream_result_def final_tell_def body_def
        takeWhile_all_written split: option.splits)
qed

lemma no_clobber_raise:
  "passes_clobber_check ctx fs \<Longrightarrow>
   (if fs \<noteq> None then maybe_raise (BasicClobberError tp url) ctx else None) = None"
  by (auto simp: passes_clobber_check_def maybe_raise_def)

lemma download_clobber:
  "\<not> passes_clobber_check ctx fs \<Longrightarrow>
   download ctx e hx fs url tp md5 =
     \<lparr>final = \<lparr>events = [], target_file = fs\<rparr>, result = Inl (BasicClobberError tp url)\<rparr>"
  by (cases "clobber ctx") (auto simp: passes_clobber_check_def download_def maybe_raise_def)

lemma download_get_raises:
  "passes_clobber_check ctx fs \<Longrightarrow> get_result e = Inl x \<Longrightarrow>
   download ctx e hx fs url tp md5 =
     \<lparr>final = \<lparr>events = prologue ctx url tp 0 @ epilogue 0, target_file = fs\<rparr>,
      result = Inl (except_clauses url (FromLibrary x))\<rparr>"
  by (auto simp: passes_clobber_check_def maybe_raise_def download_def try_block_def
      session_body_def emit_def prologue_def epilogue_def Let_def)

lemma download_status_raises:
  "passes_clobber_check ctx fs \<Longrightarrow> get_result e = Inr resp \<Longrightarrow> status_raises resp \<Longrightarrow>
   download ctx e hx fs url tp md5 =
     \<lparr>final = \<lparr>events = prologue ctx url tp 0 @ epilogue 0, target_file = fs\<rparr>,
      result = Inl (except_clauses url (FromLibrary (HTTPError (Some (info resp)))))\<rparr>"
  by (auto simp: passes_clobber_check_def maybe_raise_def download_def try_block_def
      session_body_def emit_def prologue_def epilogue_def Let_def raise_for_status_def)

lemma download_bad_header:
  "passes_clobber_check ctx fs \<Longrightarrow> get_result e = Inr resp \<Longrightarrow> \<not> status_raises resp \<Longrightarrow>
   declared_content_length resp = None \<Longrightarrow>
   download ctx e hx fs url tp md5 =
     \<lparr>final = \<lparr>events = prologue ctx url tp 0 @ epilogue 0, target_file = fs\<rparr>,
      result = Inl ValueError\<rparr>"
  by (auto simp: passes_clobber_check_def maybe_raise_def download_def try_block_def
      session_body_def emit_def prologue_def epilogue_def Let_def raise_for_status_def)

lemma download_open_fails:
  "passes_clobber_check ctx fs \<Longrightarrow> responds e resp cl \<Longrightarrow> open_errno e = Some n \<Longrightarrow>
   download ctx e hx fs url tp md5 =
     \<lparr>final = \<lparr>events = prologue ctx url tp cl @ epilogue cl, target_file = fs\<rparr>,
      result = Inl (FromLibrary (IOError n))\<rparr>"
  by (auto simp: passes_clobber_check_def maybe_raise_def download_def try_block_def
      session_body_def emit_def prologue_def epilogue_def Let_def raise_for_status_def
      responds_def stream_to_file_def)

lemma download_opened:
  assumes p: "passes_clobber_check ctx fs" and r: "responds e resp cl" and o: "open_errno e = None"
  shows "download ctx e hx fs url tp md5 =
     \<lparr>final = \<lparr>events = prologue ctx url tp cl @
                  FileOpen tp # concat (map (step_events cl) (written_steps resp)) @ epilogue cl,
               target_file = Some (concat (map chunk (written_steps resp)))\<rparr>,
      result = verdict hx url tp md5 (stream_result resp url tp cl)\<rparr>"
proof -
  have g: "get_result e = Inr resp" "raise_for_status resp = None"
    "declared_content_length resp = Some cl"
    using r by (simp_all add: responds_def raise_for_status_def)
  show ?thesis
    unfolding download_def no_clobber_raise [OF p]
    by (cases "stream_result resp url tp cl")
      (simp_all add: try_block_def session_body_def Let_def g
        stream_to_file_closed [OF o] emit_def prologue_def epilogue_def verdict_def
        split: option.splits)
qed

lemma stream_ends_result:
  "stream_ends e resp \<Longrightarrow>
   stream_result resp url tp cl =
     (if cl \<noteq> 0 \<and> final_tell resp \<noteq> cl
      then Inl (CondaError length_mismatch_message
             [(''url'', PStr url), (''target_path'', PStr tp),
              (''content_length'', PInt cl), (''downloaded_bytes'', PInt (final_tell resp))])
      else Inr (body resp))"
  by (simp add: stream_ends_def stream_result_def first_write_error_None [symmetric])

lemma stream_ends_written: "stream_ends e resp \<Longrightarrow> written_steps resp = iter_content resp"
  by (simp add: stream_ends_def written_steps_def takeWhile_all_written
      first_write_error_None [symmetric])

lemma download_stream_ends:
  assumes "passes_clobber_check ctx fs" "responds e resp cl" "stream_ends e resp"
  shows "download ctx e hx fs url tp md5 =
     \<lparr>final = \<lparr>events = prologue ctx url tp cl @
                  FileOpen tp # concat (map (step_events cl) (iter_content resp)) @ epilogue cl,
               target_file = Some (body resp)\<rparr>,
      result = verdict hx url tp md5
        (if cl \<noteq> 0 \<and> final_tell resp \<noteq> cl
         then Inl (CondaError length_mismatch_message
                [(''url'', PStr url), (''target_path'', PStr tp),
                 (''content_length'', PInt cl), (''downloaded_bytes'', PInt (final_tell resp))])
         else Inr (body resp))\<rparr>"
proof -
  have o: "open_errno e = None" using assms(3) by (simp add: stream_ends_def)
  show ?thesis
    by (simp add: download_opened [OF assms(1,2) o] stream_ends_result [OF assms(3)]
        stream_ends_written [OF assms(3)] body_def)
qed

lemmas sample_defs = sample_context_def sample_info_def step_def response_of_def env_of_def
  compressed_response_def truncated_response_def exact_response_def zero_length_response_def
  not_found_response_def not_modified_response_def reset_response_def

lemmas reading_defs = passes_clobber_check_def responds_def stream_ends_def final_tell_def
  body_def declared_content_length_def py_int_def py_strip_def py_isspace_def digits_def
  digit_of_def status_raises_def

subsection \<open>Reading the events of a call\<close>

lemma file_writes_append [simp]: "file_writes (xs @ ys) = file_writes xs @ file_writes ys"
  by (simp add: file_writes_def)

lemma digest_updates_append [simp]: "digest_updates (xs @ ys) = digest_updates xs @ digest_updates ys"
  by (simp add: digest_updates_def)

lemma fetch_updates_append [simp]: "fetch_updates (xs @ ys) = fetch_updates xs @ fetch_updates ys"
  by (simp add: fetch_updates_def)

lemma get_calls_append [simp]: "get_calls (xs @ ys) = get_calls xs + get_calls ys"
  by (simp add: get_calls_def)

lemma prologue_reading [simp]:
  "file_writes (prologue ctx url tp cl) = []"
  "digest_updates (prologue ctx url tp cl) = []"
  "fetch_updates (prologue ctx url tp cl) = []"
  "get_calls (prologue ctx url tp cl) = 1"
  "filter is_start_or_stop (prologue ctx url tp cl) =
     (if cl \<noteq> 0 then [FetchStart (take 14 (basename tp)) cl] else [])"
  "filter is_progress (prologue ctx url tp cl) =
     (if cl \<noteq> 0 then [FetchStart (take 14 (basename tp)) cl] else [])"
  by (simp_all add: prologue_def file_writes_def digest_updates_def fetch_updates_def get_calls_def)

lemma epilogue_reading [simp]:
  "file_writes (epilogue cl) = []"
  "digest_updates (epilogue cl) = []"
  "fetch_updates (epilogue cl) = []"
  "get_calls (epilogue cl) = 0"
  "filter is_start_or_stop (epilogue cl) = (if cl \<noteq> 0 then [FetchStop] else [])"
  "filter is_progress (epilogue cl) = (if cl \<noteq> 0 then [FetchStop] else [])"
  by (simp_all add: epilogue_def file_writes_def digest_updates_def fetch_updates_def get_calls_def)

lemma steps_reading [simp]:
  "file_writes (concat (map (step_events cl) ss)) = map chunk ss"
  "digest_updates (concat (map (step_events cl) ss)) = map chunk ss"
  "fetch_updates (concat (map (step_events cl) ss)) =
     filter (\<lambda>n. cl \<noteq> 0 \<and> 0 \<le> n \<and> n \<le> cl) (map raw_tell ss)"
  "get_calls (concat (map (step_events cl) ss)) = 0"
  "filter is_start_or_stop (concat (map (step_events cl) ss)) = []"
  "cl = 0 \<Longrightarrow> filter is_progress (concat (map (step_events cl) ss)) = []"
  by (induction ss)
    (simp_all add: step_events_def file_writes_def digest_updates_def fetch_updates_def get_calls_def)

lemma cons_reading [simp]:
  "file_writes (FileOpen tp # evs) = file_writes evs"
  "digest_updates (FileOpen tp # evs) = digest_updates evs"
  "fetch_updates (FileOpen tp # evs) = fetch_updates evs"
  "get_calls (FileOpen tp # evs) = get_calls evs"
  by (simp_all add: file_writes_def digest_updates_def fetch_updates_def get_calls_def)

lemma except_clauses_not_validation:
  "\<not> is_length_mismatch (Inl (except_clauses url (FromLibrary x)))"
  "\<not> is_md5_mismatch (Inl (except_clauses url (FromLibrary x)))"
  by (cases x; simp)+

lemma messages_differ: "write_failed_message \<noteq> length_mismatch_message"
  by (simp add: write_failed_message_def length_mismatch_message_def dals_def)

text \<open>Every call takes one of six paths.\<close>

lemma download_paths:
  obtains
    (clobber) "\<not> passes_clobber_check ctx fs"
  | (get_raises) x where "passes_clobber_check ctx fs" "get_result e = Inl x"
  | (status_raises) resp where "passes_clobber_check ctx fs" "get_result e = Inr resp"
      "status_raises resp"
  | (bad_header) resp where "passes_clobber_check ctx fs" "get_result e = Inr resp"
      "\<not> status_raises resp" "declared_content_length resp = None"
  | (open_fails) resp cl n where "passes_clobber_check ctx fs" "responds e resp cl"
      "open_errno e = Some n"
  | (opened) resp cl where "passes_clobber_check ctx fs" "responds e resp cl"
      "open_errno e = None"
proof (cases "passes_clobber_check ctx fs")
  case False
  then show ?thesis by (rule clobber)
next
  case p: True
  show ?thesis
  proof (cases "get_result e")
    case (Inl x)
    with p show ?thesis by (rule get_raises)
  next
    case (Inr resp)
    show ?thesis
    proof (cases "status_raises resp")
      case True
      with p Inr show ?thesis by (rule status_raises)
    next
      case s: False
      show ?thesis
      proof (cases "declared_content_length resp")
        case None
        with p Inr s show ?thesis by (rule bad_header)
      next
        case (Some cl)
        with Inr s have r: "responds e resp cl" by (simp add: responds_def)
        show ?thesis
        proof (cases "open_errno e")
          case None
          with p r show ?thesis by (rule opened)
        next
          case (Some n)
          with p r show ?thesis by (rule open_fails)
        qed
      qed
    qed
  qed
qed

text \<open>A call that returns, or that raises one of the two validation errors, streamed to the end.\<close>

lemma validated_path:
  assumes "result (download ctx e hx fs url tp md5) = Inr ()
           \<or> is_length_mismatch (result (download ctx e hx fs url tp md5))
           \<or> is_md5_mismatch (result (download ctx e hx fs url tp md5))"
  obtains resp cl where "passes_clobber_check ctx fs" "responds e resp cl" "stream_ends e resp"
proof (cases rule: download_paths [where ctx = ctx and fs = fs and e = e])
  case clobber
  with assms show ?thesis by (simp add: download_clobber)
next
  case (get_raises x)
  with assms show ?thesis by (simp add: download_get_raises except_clauses_not_validation)
next
  case (status_raises resp)
  with assms show ?thesis by (simp add: download_status_raises except_clauses_not_validation)
next
  case (bad_header resp)
  with assms show ?thesis by (simp add: download_bad_header)
next
  case (open_fails resp cl n)
  with assms show ?thesis by (simp add: download_open_fails)
next
  case (opened resp cl)
  have "first_write_error (iter_content resp) = None \<and> iter_error resp = None"
    using assms messages_differ
    by (simp add: download_opened [OF opened] verdict_def stream_result_def
        except_clauses_not_validation split: option.splits)
  with opened(3) have "stream_ends e resp"
    by (simp add: stream_ends_def first_write_error_None)
  with opened(1,2) show ?thesis by (rule that)
qed

lemmas run_defs = download_def try_block_def session_body_def stream_to_file_def emit_def
  fh_write_def raise_for_status_def maybe_raise_def basename_def Let_def
  sum8_hexdigest_def hex_digit_def

lemma epilogue_last [simp]: "epilogue cl \<noteq> []" "cl \<noteq> 0 \<Longrightarrow> last (epilogue cl) = FetchStop"
  by (simp_all add: epilogue_def)

lemma marks_open_file [simp]:
  "filter is_start_or_stop (FileOpen tp # evs) = filter is_start_or_stop evs"
  "filter is_progress (FileOpen tp # evs) = filter is_progress evs"
  by simp_all

lemma download_header_only_through_int:
  assumes "get_result e = Inr resp"
    and "declared_content_length (resp\<lparr>content_length_header := h\<rparr>) = declared_content_length resp"
  shows "download ctx (e\<lparr>get_result := Inr (resp\<lparr>content_length_header := h\<rparr>)\<rparr>) hx fs url tp md5 =
         download ctx e hx fs url tp md5"
proof -
  have st: "stream_to_file (e\<lparr>get_result := Inr (resp\<lparr>content_length_header := h\<rparr>)\<rparr>)
          (resp\<lparr>content_length_header := h\<rparr>) url tp cl w =
        stream_to_file e resp url tp cl w" for cl w
    by (simp add: stream_to_file_def cong: option.case_cong prod.case_cong sum.case_cong)
  have "session_body ctx (e\<lparr>get_result := Inr (resp\<lparr>content_length_header := h\<rparr>)\<rparr>) url tp w =
        session_body ctx e url tp w" for w
    using assms
    by (simp add: session_body_def raise_for_status_def status_raises_def st Let_def
        cong: option.case_cong)
  then show ?thesis
    by (simp add: download_def try_block_def Let_def cong: option.case_cong)
qed

text \<open>
  The mutex of \<^verbatim>\<open>SingleThreadCondaSession\<close> within one call: it is acquired once and
  released once on every path that reaches the session block, whatever the block raises.
\<close>

lemma mutex_released_on_every_path:
  "filter is_mutex (events (final (download ctx e hx fs url tp md5))) =
     (if passes_clobber_check ctx fs then [MutexAcquire, MutexRelease] else [])"
proof -
  have pro: "filter is_mutex (prologue ctx url tp cl) = [MutexAcquire]" for cl
    by (simp add: prologue_def)
  have epi: "filter is_mutex (epilogue cl) = [MutexRelease]" for cl
    by (simp add: epilogue_def)
  have steps: "filter is_mutex (concat (map (step_events cl) ss)) = []" for cl ss
    by (induction ss) (simp_all add: step_events_def)
  show ?thesis
  proof (cases rule: download_paths [where ctx = ctx and fs = fs and e = e])
    case clobber
    then show ?thesis by (simp add: download_clobber)
  next
    case (get_raises x)
    then show ?thesis by (simp add: download_get_raises pro epi)
  next
    case (status_raises resp)
    then show ?thesis by (simp add: download_status_raises pro epi)
  next
    case (bad_header resp)
    then show ?thesis by (simp add: download_bad_header pro epi)
  next
    case (open_fails resp cl n)
    then show ?thesis by (simp add: download_open_fails pro epi)
  next
    case (opened resp cl)
    then show ?thesis by (simp add: download_opened pro epi steps)
  qed
qed

subsection \<open>The claims\<close>

text \<open>
  C1. When the request phase gave a declared length other than 0, the stream ends, and the
  last value of \<^verbatim>\<open>streamed_bytes\<close> differs from the declared length, the call raises the
  length-mismatch \<^verbatim>\<open>CondaError\<close> with the url, the destination path, the declared
  length and the streamed byte count, whatever the expected checksum is; it does not
  return.
\<close>

theorem download_length_mismatch:
  assumes "passes_clobber_check ctx fs"
    and "responds e resp content_length"
    and "content_length \<noteq> 0"
    and "stream_ends e resp"
    and "final_tell resp \<noteq> content_length"
  shows "result (download ctx e hexdigest fs url target_full_path md5sum) =
           Inl (CondaError length_mismatch_message
                  [(''url'', PStr url), (''target_path'', PStr target_full_path),
                   (''content_length'', PInt content_length),
                   (''downloaded_bytes'', PInt (final_tell resp))])
         \<and> result (download ctx e hexdigest fs url target_full_path md5sum) \<noteq> Inr ()"
  using assms(3,5) by (simp add: download_stream_ends [OF assms(1,2,4)] verdict_def)

theorem download_length_mismatch_witness:
  "passes_clobber_check sample_context None
   \<and> responds (env_of truncated_response) truncated_response 5
   \<and> (5::int) \<noteq> 0
   \<and> stream_ends (env_of truncated_response) truncated_response
   \<and> final_tell truncated_response \<noteq> 5
   \<and> result (download sample_context (env_of truncated_response) sum8_hexdigest None
         ''https://repo/pkg.tar.bz2'' ''/pkgs/pkg.tar.bz2'' None) =
       Inl (CondaError length_mismatch_message
              [(''url'', PStr ''https://repo/pkg.tar.bz2''),
               (''target_path'', PStr ''/pkgs/pkg.tar.bz2''),
               (''content_length'', PInt 5), (''downloaded_bytes'', PInt 3)])"
proof -
  have h1: "passes_clobber_check sample_context None"
    by (simp add: reading_defs)
  have h2: "responds (env_of truncated_response) truncated_response 5"
    by (simp add: reading_defs sample_defs)
  have h3: "(5::int) \<noteq> 0" by simp
  have h4: "stream_ends (env_of truncated_response) truncated_response"
    by (simp add: reading_defs sample_defs)
  have h5: "final_tell truncated_response \<noteq> 5"
    by (simp add: reading_defs sample_defs)
  have t: "final_tell truncated_response = 3"
    by (simp add: reading_defs sample_defs)
  from download_length_mismatch [OF h1 h2 h3 h4 h5, of sum8_hexdigest
      "''https://repo/pkg.tar.bz2''" "''/pkgs/pkg.tar.bz2''" None]
  show ?thesis using h1 h2 h4 h5 by (simp add: t)
qed

text \<open>
  C2. When the request phase passed, the stream ends, the byte-count check passes or is
  skipped (the declared length is 0, or equals the streamed byte count), and a non-empty
  expected checksum differs from the digest of the streamed chunks, the call raises
  \<^verbatim>\<open>MD5MismatchError\<close> with the url, the destination path, the expected and the actual
  digest. This covers the case where the byte count matched exactly. Without the
  condition on the byte count the statement fails: the length check of line 90 comes
  first.
\<close>

theorem download_md5_mismatch:
  assumes "passes_clobber_check ctx fs"
    and "responds e resp content_length"
    and "stream_ends e resp"
    and "content_length = 0 \<or> final_tell resp = content_length"
    and "md5sum = Some expected"
    and "expected \<noteq> []"
    and "hexdigest (body resp) \<noteq> expected"
  shows "result (download ctx e hexdigest fs url target_full_path md5sum) =
           Inl (MD5MismatchError url target_full_path expected (hexdigest (body resp)))"
  using assms(4-7) by (auto simp: download_stream_ends [OF assms(1-3)] verdict_def)

theorem download_md5_mismatch_witness:
  "passes_clobber_check sample_context None
   \<and> responds (env_of exact_response) exact_response 3
   \<and> stream_ends (env_of exact_response) exact_response
   \<and> ((3::int) = 0 \<or> final_tell exact_response = 3)
   \<and> Some ''ff'' = Some ''ff'' \<and> ''ff'' \<noteq> []
   \<and> sum8_hexdigest (body exact_response) \<noteq> ''ff''
   \<and> result (download sample_context (env_of exact_response) sum8_hexdigest None
         ''https://repo/pkg.tar.bz2'' ''/pkgs/pkg.tar.bz2'' (Some ''ff'')) =
       Inl (MD5MismatchError ''https://repo/pkg.tar.bz2'' ''/pkgs/pkg.tar.bz2'' ''ff'' ''06'')"
proof -
  have h1: "passes_clobber_check sample_context None"
    by (simp add: reading_defs)
  have h2: "responds (env_of exact_response) exact_response 3"
    by (simp add: reading_defs sample_defs)
  have h3: "stream_ends (env_of exact_response) exact_response"
    by (simp add: reading_defs sample_defs)
  have h4: "(3::int) = 0 \<or> final_tell exact_response = 3"
    by (simp add: reading_defs sample_defs)
  have h5: "Some ''ff'' = Some ''ff''" by simp
  have h6: "''ff'' \<noteq> []" by simp
  have d: "sum8_hexdigest (body exact_response) = ''06''"
    by (simp add: reading_defs sample_defs sum8_hexdigest_def hex_digit_def)
  have h7: "sum8_hexdigest (body exact_response) \<noteq> ''ff''"
    by (simp add: d)
  from download_md5_mismatch [where hexdigest = sum8_hexdigest, OF h1 h2 h3 h4 h5 h6 h7,
      of "''https://repo/pkg.tar.bz2''" "''/pkgs/pkg.tar.bz2''"]
  show ?thesis using h1 h2 h3 h4 h7 by (simp add: d)
qed

text \<open>
  Five bytes declared, three streamed, and an expected checksum that differs from the
  digest of the three bytes: the call raises the length-mismatch error, not
  \<^verbatim>\<open>MD5MismatchError\<close>.
\<close>

theorem download_md5_mismatch_counterexample:
  "sum8_hexdigest (body truncated_response) \<noteq> ''ff''
   \<and> result (download sample_context (env_of truncated_response) sum8_hexdigest None
         ''https://repo/pkg.tar.bz2'' ''/pkgs/pkg.tar.bz2'' (Some ''ff'')) =
       Inl (CondaError length_mismatch_message
              [(''url'', PStr ''https://repo/pkg.tar.bz2''),
               (''target_path'', PStr ''/pkgs/pkg.tar.bz2''),
               (''content_length'', PInt 5), (''downloaded_bytes'', PInt 3)])
   \<and> \<not> is_md5_mismatch (result (download sample_context (env_of truncated_response)
         sum8_hexdigest None ''https://repo/pkg.tar.bz2'' ''/pkgs/pkg.tar.bz2'' (Some ''ff'')))"
  by (simp add: run_defs reading_defs sample_defs)

text \<open>
  C3. When the call returns, the chunks written to the file are the chunks fed to the
  digest, in the same order; the file holds exactly their concatenation; and so the digest
  of the bytes on disk is the digest the verification step compared, which equals the
  expected checksum when one was supplied.
\<close>

theorem download_round_trip:
  assumes "result (download ctx e hexdigest fs url target_full_path md5sum) = Inr ()"
  shows "file_writes (events (final (download ctx e hexdigest fs url target_full_path md5sum))) =
           digest_updates (events (final (download ctx e hexdigest fs url target_full_path md5sum)))
         \<and> target_file (final (download ctx e hexdigest fs url target_full_path md5sum)) =
             Some (concat (digest_updates
               (events (final (download ctx e hexdigest fs url target_full_path md5sum)))))
         \<and> (\<forall>expected. md5sum = Some expected \<longrightarrow> expected \<noteq> [] \<longrightarrow>
               hexdigest (concat (digest_updates
                 (events (final (download ctx e hexdigest fs url target_full_path md5sum))))) =
               expected)"
proof -
  from assms have "result (download ctx e hexdigest fs url target_full_path md5sum) = Inr ()
      \<or> is_length_mismatch (result (download ctx e hexdigest fs url target_full_path md5sum))
      \<or> is_md5_mismatch (result (download ctx e hexdigest fs url target_full_path md5sum))"
    by simp
  then obtain resp cl where
    p: "passes_clobber_check ctx fs" "responds e resp cl" "stream_ends e resp"
    by (rule validated_path)
  show ?thesis
    using assms
    by (auto simp: download_stream_ends [OF p] verdict_def body_def split: if_splits option.splits)
qed

theorem download_round_trip_witness:
  "result (download sample_context (env_of compressed_response) sum8_hexdigest None
      ''https://repo/pkg.tar.bz2'' ''/pkgs/pkg.tar.bz2'' (Some ''0f'')) = Inr ()
   \<and> file_writes (events (final (download sample_context (env_of compressed_response)
        sum8_hexdigest None ''https://repo/pkg.tar.bz2'' ''/pkgs/pkg.tar.bz2'' (Some ''0f'')))) =
      [[1, 2, 3, 4, 5]]
   \<and> digest_updates (events (final (download sample_context (env_of compressed_response)
        sum8_hexdigest None ''https://repo/pkg.tar.bz2'' ''/pkgs/pkg.tar.bz2'' (Some ''0f'')))) =
      [[1, 2, 3, 4, 5]]
   \<and> target_file (final (download sample_context (env_of compressed_response)
        sum8_hexdigest None ''https://repo/pkg.tar.bz2'' ''/pkgs/pkg.tar.bz2'' (Some ''0f''))) =
      Some [1, 2, 3, 4, 5]
   \<and> sum8_hexdigest [1, 2, 3, 4, 5] = ''0f''"
proof -
  let ?out = "download sample_context (env_of compressed_response) sum8_hexdigest None
      ''https://repo/pkg.tar.bz2'' ''/pkgs/pkg.tar.bz2'' (Some ''0f'')"
  have h: "result ?out = Inr ()"
    by (simp add: run_defs reading_defs sample_defs)
  have w: "file_writes (events (final ?out)) = [[1, 2, 3, 4, 5]]"
    by (simp add: run_defs reading_defs sample_defs file_writes_def)
  note r = download_round_trip [OF h]
  from r have "digest_updates (events (final ?out)) = file_writes (events (final ?out))"
    by simp
  with w have d: "digest_updates (events (final ?out)) = [[1, 2, 3, 4, 5]]"
    by simp
  from r have f: "target_file (final ?out) = Some (concat (digest_updates (events (final ?out))))"
    by simp
  from r have x: "sum8_hexdigest (concat (digest_updates (events (final ?out)))) = ''0f''"
    by simp
  show ?thesis using h w d f [unfolded d] x [unfolded d] by simp
qed

text \<open>
  C4. When a file exists at the destination and the policy is the default one, the call
  raises \<^verbatim>\<open>BasicClobberError\<close> before anything else happens: no event is recorded, so
  no GET is issued (the transport-call counter is 0), and the file is untouched.
\<close>

theorem download_clobber_first:
  assumes "fs \<noteq> None" and "clobber ctx = default_clobber_policy"
  shows "download ctx e hexdigest fs url target_full_path md5sum =
           \<lparr>final = \<lparr>events = [], target_file = fs\<rparr>,
            result = Inl (BasicClobberError target_full_path url)\<rparr>
         \<and> get_calls (events (final (download ctx e hexdigest fs url target_full_path md5sum))) = 0"
proof -
  from assms have "\<not> passes_clobber_check ctx fs"
    by (simp add: passes_clobber_check_def default_clobber_policy_def)
  then show ?thesis
    by (simp add: download_clobber get_calls_def)
qed

theorem download_clobber_first_witness:
  "Some [7, 7] \<noteq> (None :: bytes option) \<and> clobber sample_context = default_clobber_policy
   \<and> download sample_context (env_of exact_response) sum8_hexdigest (Some [7, 7])
        ''https://repo/pkg.tar.bz2'' ''/pkgs/pkg.tar.bz2'' None =
      \<lparr>final = \<lparr>events = [], target_file = Some [7, 7]\<rparr>,
       result = Inl (BasicClobberError ''/pkgs/pkg.tar.bz2'' ''https://repo/pkg.tar.bz2'')\<rparr>
   \<and> get_calls (events (final (download sample_context (env_of exact_response) sum8_hexdigest
        (Some [7, 7]) ''https://repo/pkg.tar.bz2'' ''/pkgs/pkg.tar.bz2'' None))) = 0"
proof -
  have h1: "Some [7, 7] \<noteq> (None :: bytes option)" by simp
  have h2: "clobber sample_context = default_clobber_policy"
    by (simp add: sample_context_def default_clobber_policy_def)
  from download_clobber_first [OF h1 h2, of "env_of exact_response" sum8_hexdigest
      "''https://repo/pkg.tar.bz2''" "''/pkgs/pkg.tar.bz2''" None]
  show ?thesis using h2 by (simp add: get_calls_def)
qed

text \<open>
  C5. On a call whose stream ends, the counts reported to \<^verbatim>\<open>fetch.update\<close> are the
  answers of \<^verbatim>\<open>resp.raw.tell()\<close> that lie between 0 and the declared length, and the
  length-mismatch error is raised exactly when the declared length is not 0 and differs
  from the last answer of \<^verbatim>\<open>resp.raw.tell()\<close>. The lengths of the chunks play no part:
  in the example the chunk has five bytes, the cursor says three, and three is reported
  and accepted.
\<close>

theorem streamed_bytes_is_raw_tell:
  assumes "passes_clobber_check ctx fs"
    and "responds e resp content_length"
    and "stream_ends e resp"
  shows "fetch_updates (events (final (download ctx e hexdigest fs url target_full_path md5sum))) =
           filter (\<lambda>n. content_length \<noteq> 0 \<and> 0 \<le> n \<and> n \<le> content_length)
             (map raw_tell (iter_content resp))
         \<and> (is_length_mismatch (result (download ctx e hexdigest fs url target_full_path md5sum))
              \<longleftrightarrow> content_length \<noteq> 0 \<and> final_tell resp \<noteq> content_length)"
proof -
  note d = download_stream_ends [OF assms]
  have "fetch_updates (events (final (download ctx e hexdigest fs url target_full_path md5sum))) =
           filter (\<lambda>n. content_length \<noteq> 0 \<and> 0 \<le> n \<and> n \<le> content_length)
             (map raw_tell (iter_content resp))"
    by (simp add: d)
  moreover have "is_length_mismatch (result (download ctx e hexdigest fs url target_full_path md5sum))
      \<longleftrightarrow> content_length \<noteq> 0 \<and> final_tell resp \<noteq> content_length"
    by (simp add: d verdict_def split: option.splits)
  ultimately show ?thesis by simp
qed

theorem streamed_bytes_is_raw_tell_witness:
  "passes_clobber_check sample_context None
   \<and> responds (env_of compressed_response) compressed_response 3
   \<and> stream_ends (env_of compressed_response) compressed_response
   \<and> map (\<lambda>s. int (length (chunk s))) (iter_content compressed_response) = [5]
   \<and> map raw_tell (iter_content compressed_response) = [3]
   \<and> fetch_updates (events (final (download sample_context (env_of compressed_response)
        sum8_hexdigest None ''https://repo/pkg.tar.bz2'' ''/pkgs/pkg.tar.bz2'' None))) = [3]
   \<and> \<not> is_length_mismatch (result (download sample_context (env_of compressed_response)
        sum8_hexdigest None ''https://repo/pkg.tar.bz2'' ''/pkgs/pkg.tar.bz2'' None))"
proof -
  have h1: "passes_clobber_check sample_context None"
    by (simp add: reading_defs)
  have h2: "responds (env_of compressed_response) compressed_response 3"
    by (simp add: reading_defs sample_defs)
  have h3: "stream_ends (env_of compressed_response) compressed_response"
    by (simp add: reading_defs sample_defs)
  have c: "map (\<lambda>s. int (length (chunk s))) (iter_content compressed_response) = [5]"
    "map raw_tell (iter_content compressed_response) = [3]"
    "final_tell compressed_response = 3"
    by (simp_all add: reading_defs sample_defs)
  from streamed_bytes_is_raw_tell [OF h1 h2 h3, of sum8_hexdigest
      "''https://repo/pkg.tar.bz2''" "''/pkgs/pkg.tar.bz2''" None]
  show ?thesis using h1 h2 h3 c by simp
qed

text \<open>
  C6. When the request phase gave a declared length other than 0, the call emits exactly
  one \<^verbatim>\<open>fetch.start\<close> and, after it, exactly one \<^verbatim>\<open>fetch.stop\<close>, which is the last
  event of the call; this holds whatever happens afterwards (the file cannot be opened, a
  write fails, the iterator raises, a validation fails, or the call returns). And on any
  call at all, if a start or stop event was emitted then they are one start followed by
  one stop, the stop being the last event.
\<close>

theorem fetch_stop_on_every_exit:
  "(passes_clobber_check ctx fs \<and> responds e resp content_length \<and> content_length \<noteq> 0 \<longrightarrow>
      filter is_start_or_stop
        (events (final (download ctx e hexdigest fs url target_full_path md5sum))) =
        [FetchStart (take 14 (basename target_full_path)) content_length, FetchStop]
      \<and> last (events (final (download ctx e hexdigest fs url target_full_path md5sum))) = FetchStop)
   \<and> (filter is_start_or_stop
        (events (final (download ctx e hexdigest fs url target_full_path md5sum))) \<noteq> [] \<longrightarrow>
      (\<exists>name n. filter is_start_or_stop
          (events (final (download ctx e hexdigest fs url target_full_path md5sum))) =
          [FetchStart name n, FetchStop])
      \<and> last (events (final (download ctx e hexdigest fs url target_full_path md5sum))) = FetchStop)"
proof -
  let ?evs = "events (final (download ctx e hexdigest fs url target_full_path md5sum))"
  have observed: "filter is_start_or_stop ?evs =
        [FetchStart (take 14 (basename target_full_path)) cl, FetchStop] \<and> last ?evs = FetchStop"
    if p: "passes_clobber_check ctx fs" and r: "responds e resp' cl" and n: "cl \<noteq> 0"
    for resp' cl
  proof (cases "open_errno e")
    case None
    show ?thesis
      using n by (simp add: download_opened [OF p r None])
  next
    case (Some errno)
    show ?thesis
      using n by (simp add: download_open_fails [OF p r Some])
  qed
  have unobserved: "filter is_start_or_stop ?evs = []"
    if p: "passes_clobber_check ctx fs" and r: "responds e resp' 0" for resp'
  proof (cases "open_errno e")
    case None
    show ?thesis by (simp add: download_opened [OF p r None])
  next
    case (Some errno)
    show ?thesis by (simp add: download_open_fails [OF p r Some])
  qed
  have "(\<exists>name n. filter is_start_or_stop ?evs = [FetchStart name n, FetchStop])
      \<and> last ?evs = FetchStop" if m: "filter is_start_or_stop ?evs \<noteq> []"
  proof (cases rule: download_paths [where ctx = ctx and fs = fs and e = e])
    case clobber
    with m show ?thesis by (simp add: download_clobber)
  next
    case (get_raises x)
    with m show ?thesis by (simp add: download_get_raises)
  next
    case (status_raises resp)
    with m show ?thesis by (simp add: download_status_raises)
  next
    case (bad_header resp)
    with m show ?thesis by (simp add: download_bad_header)
  next
    case (open_fails resp' cl n)
    with m unobserved [of resp'] have "cl \<noteq> 0" by auto
    from observed [OF open_fails(1,2) this] show ?thesis by simp
  next
    case (opened resp' cl)
    with m unobserved [of resp'] have "cl \<noteq> 0" by auto
    from observed [OF opened(1,2) this] show ?thesis by simp
  qed
  with observed [of resp content_length] show ?thesis by blast
qed

theorem fetch_stop_on_every_exit_witness:
  "passes_clobber_check sample_context None
   \<and> responds (env_of truncated_response) truncated_response 5 \<and> (5::int) \<noteq> 0
   \<and> is_length_mismatch (result (download sample_context (env_of truncated_response)
         sum8_hexdigest None ''https://repo/pkg.tar.bz2'' ''/pkgs/pkg.tar.bz2'' None))
   \<and> filter is_start_or_stop (events (final (download sample_context (env_of truncated_response)
         sum8_hexdigest None ''https://repo/pkg.tar.bz2'' ''/pkgs/pkg.tar.bz2'' None))) =
       [FetchStart ''pkg.tar.bz2'' 5, FetchStop]
   \<and> filter is_start_or_stop (events (final (download sample_context (env_of truncated_response)
         sum8_hexdigest None ''https://repo/pkg.tar.bz2'' ''/pkgs/pkg.tar.bz2'' None))) \<noteq> []
   \<and> last (events (final (download sample_context (env_of truncated_response)
         sum8_hexdigest None ''https://repo/pkg.tar.bz2'' ''/pkgs/pkg.tar.bz2'' None))) = FetchStop"
proof -
  let ?out = "download sample_context (env_of truncated_response)
         sum8_hexdigest None ''https://repo/pkg.tar.bz2'' ''/pkgs/pkg.tar.bz2'' None"
  have h1: "passes_clobber_check sample_context None"
    by (simp add: reading_defs)
  have h2: "responds (env_of truncated_response) truncated_response 5"
    by (simp add: reading_defs sample_defs)
  have h3: "(5::int) \<noteq> 0" by simp
  have b: "take 14 (basename ''/pkgs/pkg.tar.bz2'') = ''pkg.tar.bz2''"
    by (simp add: basename_def)
  have r: "is_length_mismatch (result ?out)"
    by (simp add: run_defs reading_defs sample_defs)
  note t = fetch_stop_on_every_exit [of sample_context None "env_of truncated_response"
      truncated_response 5 sum8_hexdigest "''https://repo/pkg.tar.bz2''" "''/pkgs/pkg.tar.bz2''" None]
  from t h1 h2 h3 have m: "filter is_start_or_stop (events (final ?out)) =
       [FetchStart ''pkg.tar.bz2'' 5, FetchStop]"
    by (simp add: b)
  then have n: "filter is_start_or_stop (events (final ?out)) \<noteq> []" by simp
  with t have "last (events (final ?out)) = FetchStop" by blast
  with h1 h2 r m n show ?thesis by simp
qed




text \<open>
  C9. A response whose Content-Length header is \<^verbatim>\<open>"0"\<close> gives the same outcome (events,
  file and result) as the same response without the header; and in both cases the call
  emits no start, update or stop event and never raises the length-mismatch error,
  whatever else happens.
\<close>

theorem zero_content_length_as_absent:
  assumes "get_result e = Inr resp"
    and "content_length_header resp = Some ''0'' \<or> content_length_header resp = None"
  shows "download ctx e hexdigest fs url target_full_path md5sum =
           download ctx (e\<lparr>get_result := Inr (resp\<lparr>content_length_header := None\<rparr>)\<rparr>)
             hexdigest fs url target_full_path md5sum
         \<and> filter is_progress
             (events (final (download ctx e hexdigest fs url target_full_path md5sum))) = []
         \<and> \<not> is_length_mismatch (result (download ctx e hexdigest fs url target_full_path md5sum))"
proof -
  let ?out = "download ctx e hexdigest fs url target_full_path md5sum"
  have z: "declared_content_length resp = Some 0"
    using assms(2) by (auto simp: reading_defs)
  have "declared_content_length (resp\<lparr>content_length_header := None\<rparr>) = declared_content_length resp"
    by (simp add: z) (simp add: declared_content_length_def)
  from download_header_only_through_int [OF assms(1) this]
  have same: "?out = download ctx (e\<lparr>get_result := Inr (resp\<lparr>content_length_header := None\<rparr>)\<rparr>)
             hexdigest fs url target_full_path md5sum"
    by simp
  have quiet: "filter is_progress (events (final ?out)) = [] \<and> \<not> is_length_mismatch (result ?out)"
  proof (cases rule: download_paths [where ctx = ctx and fs = fs and e = e])
    case clobber
    then show ?thesis by (simp add: download_clobber)
  next
    case (get_raises x)
    with assms(1) show ?thesis by simp
  next
    case (status_raises resp')
    then show ?thesis by (simp add: download_status_raises except_clauses_not_validation)
  next
    case (bad_header resp')
    with assms(1) z show ?thesis by simp
  next
    case (open_fails resp' cl n)
    with assms(1) z have "cl = 0" by (simp add: responds_def)
    with open_fails show ?thesis by (simp add: download_open_fails)
  next
    case (opened resp' cl)
    with assms(1) z have "cl = 0" by (simp add: responds_def)
    with opened messages_differ show ?thesis
      by (simp add: download_opened verdict_def stream_result_def except_clauses_not_validation
          split: option.splits)
  qed
  with same show ?thesis by simp
qed

theorem zero_content_length_as_absent_witness:
  "get_result (env_of zero_length_response) = Inr zero_length_response
   \<and> content_length_header zero_length_response = Some ''0''
   \<and> download sample_context (env_of zero_length_response) sum8_hexdigest None
        ''https://repo/pkg.tar.bz2'' ''/pkgs/pkg.tar.bz2'' (Some ''ff'') =
      download sample_context
        (env_of zero_length_response
           \<lparr>get_result := Inr (zero_length_response\<lparr>content_length_header := None\<rparr>)\<rparr>)
        sum8_hexdigest None ''https://repo/pkg.tar.bz2'' ''/pkgs/pkg.tar.bz2'' (Some ''ff'')
   \<and> filter is_progress (events (final (download sample_context (env_of zero_length_response)
        sum8_hexdigest None ''https://repo/pkg.tar.bz2'' ''/pkgs/pkg.tar.bz2'' (Some ''ff'')))) = []
   \<and> result (download sample_context (env_of zero_length_response)
        sum8_hexdigest None ''https://repo/pkg.tar.bz2'' ''/pkgs/pkg.tar.bz2'' (Some ''ff'')) =
      Inl (MD5MismatchError ''https://repo/pkg.tar.bz2'' ''/pkgs/pkg.tar.bz2'' ''ff'' ''06'')"
proof -
  have h1: "get_result (env_of zero_length_response) = Inr zero_length_response"
    by (simp add: sample_defs)
  have h: "content_length_header zero_length_response = Some ''0''"
    by (simp add: sample_defs)
  then have h2: "content_length_header zero_length_response = Some ''0''
      \<or> content_length_header zero_length_response = None"
    by simp
  have r: "result (download sample_context (env_of zero_length_response)
        sum8_hexdigest None ''https://repo/pkg.tar.bz2'' ''/pkgs/pkg.tar.bz2'' (Some ''ff'')) =
      Inl (MD5MismatchError ''https://repo/pkg.tar.bz2'' ''/pkgs/pkg.tar.bz2'' ''ff'' ''06'')"
    by (simp add: run_defs reading_defs sample_defs)
  from zero_content_length_as_absent [OF h1 h2, of sample_context sum8_hexdigest None
      "''https://repo/pkg.tar.bz2''" "''/pkgs/pkg.tar.bz2''" "Some ''ff''"]
  show ?thesis using h1 h r by blast
qed

text \<open>
  C10. When the call raises the length-mismatch error or \<^verbatim>\<open>MD5MismatchError\<close>, every
  chunk of the response was written and the destination file holds exactly the body that
  was streamed: the failure paths neither delete nor truncate it.
\<close>

theorem validation_failure_keeps_file:
  assumes "is_length_mismatch (result (download ctx e hexdigest fs url target_full_path md5sum))
           \<or> is_md5_mismatch (result (download ctx e hexdigest fs url target_full_path md5sum))"
  shows "\<exists>resp. get_result e = Inr resp
           \<and> file_writes (events (final (download ctx e hexdigest fs url target_full_path md5sum))) =
               map chunk (iter_content resp)
           \<and> target_file (final (download ctx e hexdigest fs url target_full_path md5sum)) =
               Some (body resp)"
proof -
  from assms have "result (download ctx e hexdigest fs url target_full_path md5sum) = Inr ()
      \<or> is_length_mismatch (result (download ctx e hexdigest fs url target_full_path md5sum))
      \<or> is_md5_mismatch (result (download ctx e hexdigest fs url target_full_path md5sum))"
    by blast
  then obtain resp cl where
    p: "passes_clobber_check ctx fs" "responds e resp cl" "stream_ends e resp"
    by (rule validated_path)
  from p(2) have "get_result e = Inr resp" by (simp add: responds_def)
  then show ?thesis
    by (simp add: download_stream_ends [OF p])
qed

theorem validation_failure_keeps_file_witness:
  "is_length_mismatch (result (download sample_context (env_of truncated_response)
       sum8_hexdigest None ''https://repo/pkg.tar.bz2'' ''/pkgs/pkg.tar.bz2'' None))
   \<and> file_writes (events (final (download sample_context (env_of truncated_response)
       sum8_hexdigest None ''https://repo/pkg.tar.bz2'' ''/pkgs/pkg.tar.bz2'' None))) = [[1, 2], [3]]
   \<and> target_file (final (download sample_context (env_of truncated_response)
       sum8_hexdigest None ''https://repo/pkg.tar.bz2'' ''/pkgs/pkg.tar.bz2'' None)) =
      Some [1, 2, 3]"
proof -
  let ?out = "download sample_context (env_of truncated_response)
       sum8_hexdigest None ''https://repo/pkg.tar.bz2'' ''/pkgs/pkg.tar.bz2'' None"
  have r: "is_length_mismatch (result ?out)"
    by (simp add: run_defs reading_defs sample_defs)
  then have h: "is_length_mismatch (result ?out) \<or> is_md5_mismatch (result ?out)"
    by simp
  from validation_failure_keeps_file [OF h] obtain resp where
    g: "get_result (env_of truncated_response) = Inr resp"
    and w: "file_writes (events (final ?out)) = map chunk (iter_content resp)"
    and f: "target_file (final ?out) = Some (body resp)"
    by blast
  from g have "resp = truncated_response" by (simp add: env_of_def)
  with w f have "file_writes (events (final ?out)) = [[1, 2], [3]]"
    "target_file (final ?out) = Some [1, 2, 3]"
    by (simp_all add: reading_defs sample_defs)
  with r show ?thesis by simp
qed

end
